theory Spec2Isabelle
  imports Main "HOL-Library.Sublist" "HOL-Library.Word"
begin

section \<open>The value model of package expr\<close>

text \<open>
  The built-in functions of \<^verbatim>\<open>expr_funcs.go\<close> work on \<^verbatim>\<open>*EvaluationResult\<close>: a dynamic
  payload (\<^verbatim>\<open>interface{}\<close>) paired with an \<^verbatim>\<open>actionlint.ExprType\<close> tag. The payload
  shapes are those of Go's \<^verbatim>\<open>encoding/json\<close> decoding into \<^verbatim>\<open>any\<close>: nil, bool, float64,
  string, \<^verbatim>\<open>[]interface{}\<close> and \<^verbatim>\<open>map[string]interface{}\<close>. A float64 is carried as its
  64-bit pattern; none of the functions below computes with it.
\<close>

type_synonym float64 = "64 word"

datatype payload =
    PNil
  | PBool bool
  | PFloat64 float64
  | PString string
  | PSlice "payload list"
  | PMap "(string \<times> payload) list"

text \<open>
  The type tags of \<^verbatim>\<open>actionlint\<close>. \<^verbatim>\<open>ExprType\<close> is an interface there; \<open>AnyType\<close>
  stands for an implementation other than the six the value model names, which is what
  the \<^verbatim>\<open>default\<close> branch of the type switch in \<^verbatim>\<open>contains\<close> receives.
\<close>

datatype ExprType =
    NullType | BoolType | NumberType | StringType | ArrayType | ObjectType | AnyType

record EvaluationResult =
  Value :: payload
  Type :: ExprType

text \<open>
  A Go panic is a result of its own: the message of a \<^verbatim>\<open>panic(...)\<close> of the source
  (a string or the text of an error made by \<^verbatim>\<open>fmt.Errorf\<close>), or one of the two run-time
  panics the functions can raise (an index beyond \<^verbatim>\<open>len(args)\<close>, a failed type
  assertion).
\<close>

datatype panic =
    Message string
  | IndexOutOfRange
  | InterfaceConversion

text \<open>
  Modelled from the spec: \<^verbatim>\<open>Primitive\<close>, a method of \<^verbatim>\<open>EvaluationResult\<close> that is
  declared outside \<^verbatim>\<open>expr_funcs.go\<close>. A Value is primitive iff its type is Null, Bool,
  Number or String, that is, neither Array nor Object (nor any other tag).
\<close>

fun Primitive :: "EvaluationResult \<Rightarrow> bool" where
  "Primitive v =
     (case Type v of
        NullType \<Rightarrow> True
      | BoolType \<Rightarrow> True
      | NumberType \<Rightarrow> True
      | StringType \<Rightarrow> True
      | _ \<Rightarrow> False)"

text \<open>
  The collaborators the functions call and \<^verbatim>\<open>expr_funcs.go\<close> does not define are taken
  as parameters, so that every theorem below holds for any implementation of them:
  the methods \<^verbatim>\<open>CoerceString\<close>, \<^verbatim>\<open>CoerceSlice\<close> (nil is \<open>None\<close>) and \<^verbatim>\<open>Equals\<close> (receiver
  first) of \<^verbatim>\<open>EvaluationResult\<close>, the function \<^verbatim>\<open>getExprType\<close>, and of the Go standard
  library \<^verbatim>\<open>json.Unmarshal\<close> into an \<^verbatim>\<open>any\<close> (\<open>Inl\<close> the text of the decode error, \<open>Inr\<close>
  the decoded payload) and \<^verbatim>\<open>strings.ToLower\<close>, whose Unicode case mapping and treatment
  of invalid UTF-8 are thereby left as the library has them.
\<close>

record collaborators =
  CoerceString :: "EvaluationResult \<Rightarrow> string"
  CoerceSlice :: "EvaluationResult \<Rightarrow> EvaluationResult list option"
  Equals :: "EvaluationResult \<Rightarrow> EvaluationResult \<Rightarrow> bool"
  getExprType :: "payload \<Rightarrow> ExprType"
  Unmarshal :: "string \<Rightarrow> string + payload"
  ToLower :: "string \<Rightarrow> string"

section \<open>The string functions of the Go standard library\<close>

text \<open>
  Go strings are byte sequences, as \<open>string\<close> is here. \<^verbatim>\<open>strings.Contains\<close>,
  \<^verbatim>\<open>strings.HasPrefix\<close> and \<^verbatim>\<open>strings.HasSuffix\<close> take the searched string first.
\<close>

definition Contains :: "string \<Rightarrow> string \<Rightarrow> bool" where
  "Contains s substr = sublist substr s"

definition HasPrefix :: "string \<Rightarrow> string \<Rightarrow> bool" where
  "HasPrefix s pre = prefix pre s"

definition HasSuffix :: "string \<Rightarrow> string \<Rightarrow> bool" where
  "HasSuffix s suf = suffix suf s"

text \<open>
  What \<^verbatim>\<open>strings.ToLower\<close> returns on text made of ASCII bytes only: the bytes \<^verbatim>\<open>'A'\<close>
  to \<^verbatim>\<open>'Z'\<close> move to \<^verbatim>\<open>'a'\<close> to \<^verbatim>\<open>'z'\<close>, every other byte stays. It is not
  \<^verbatim>\<open>strings.ToLower\<close> on other text, where Go maps the letters beyond ASCII and
  replaces invalid UTF-8; it is applied below to ASCII examples only, and the
  functions take \<^verbatim>\<open>strings.ToLower\<close> itself as a collaborator.
\<close>

definition asciiToLowerByte :: "char \<Rightarrow> char" where
  "asciiToLowerByte c =
     (let n = (of_char c :: nat)
      in if 65 \<le> n \<and> n \<le> 90 then char_of (n + 32) else c)"

definition asciiToLower :: "string \<Rightarrow> string" where
  "asciiToLower s = map asciiToLowerByte s"

text \<open>\<^verbatim>\<open>strings.Join\<close>: the elements in order, the separator between neighbours.\<close>

fun Join :: "string list \<Rightarrow> string \<Rightarrow> string" where
  "Join [] sep = []"
| "Join [x] sep = x"
| "Join (x # y # ys) sep = x @ sep @ Join (y # ys) sep"

text \<open>The verb \<^verbatim>\<open>%T\<close> of \<^verbatim>\<open>fmt\<close>: the name of a payload's dynamic type.\<close>

fun typeName :: "payload \<Rightarrow> string" where
  "typeName PNil = ''<nil>''"
| "typeName (PBool _) = ''bool''"
| "typeName (PFloat64 _) = ''float64''"
| "typeName (PString _) = ''string''"
| "typeName (PSlice _) = ''[]interface {}''"
| "typeName (PMap _) = ''map[string]interface {}''"

section \<open>The built-in functions\<close>

subsection \<open>contains\<close>

text \<open>
  The loop \<^verbatim>\<open>for _, v := range s\<close> of \<^verbatim>\<open>contains\<close>: it returns at the first element
  that \<^verbatim>\<open>right.Equals\<close> accepts, and false once the slice is used up.
\<close>

fun containsLoop :: "collaborators \<Rightarrow> EvaluationResult \<Rightarrow> EvaluationResult list \<Rightarrow> EvaluationResult" where
  "containsLoop d right [] = \<lparr>Value = PBool False, Type = BoolType\<rparr>"
| "containsLoop d right (v # s) =
     (if Equals d right v then \<lparr>Value = PBool True, Type = BoolType\<rparr>
      else containsLoop d right s)"

definition contains :: "collaborators \<Rightarrow> EvaluationResult list \<Rightarrow> panic + EvaluationResult" where
  "contains d args =
     (if length args \<noteq> 2 then Inl (Message ''contains() requires exactly 2 arguments'')
      else
        let left = args ! 0; right = args ! 1 in
        if Primitive left then
          (if \<not> Primitive right then Inr \<lparr>Value = PBool False, Type = BoolType\<rparr>
           else
             let ls = CoerceString d left; rs = CoerceString d right in
             Inr \<lparr>Value = PBool (Contains ls rs), Type = BoolType\<rparr>)
        else
          (case Type left of
             ObjectType \<Rightarrow> Inr \<lparr>Value = PBool False, Type = BoolType\<rparr>
           | ArrayType \<Rightarrow>
               (if \<not> Primitive right then Inr \<lparr>Value = PBool False, Type = BoolType\<rparr>
                else
                  (case CoerceSlice d left of
                     None \<Rightarrow> Inr \<lparr>Value = PBool False, Type = BoolType\<rparr>
                   | Some s \<Rightarrow> Inr (containsLoop d right s)))
           | _ \<Rightarrow> Inr \<lparr>Value = PBool False, Type = BoolType\<rparr>))"

subsection \<open>The descriptor of a function\<close>

text \<open>
  \<^verbatim>\<open>argsCount\<close> is the number of required arguments: a positive value has to be matched
  exactly, a negative value gives the least number of arguments as its absolute value.
  The implementation receives the collaborators as well.
\<close>

record funcDef =
  argsCount :: int
  call :: "collaborators \<Rightarrow> EvaluationResult list \<Rightarrow> panic + EvaluationResult"

subsection \<open>fromjson\<close>

definition fromjson :: "collaborators \<Rightarrow> EvaluationResult list \<Rightarrow> panic + EvaluationResult" where
  "fromjson d args =
     (case args of
        [] \<Rightarrow> Inl IndexOutOfRange
      | input # _ \<Rightarrow>
          let inputStr = CoerceString d input in
          (case Unmarshal d inputStr of
             Inl err \<Rightarrow>
               Inl (Message (''unable to unmarshal `'' @ inputStr @ ''` fromjson: '' @ err))
           | Inr v \<Rightarrow>
               (case v of
                  PSlice _ \<Rightarrow> Inr \<lparr>Value = v, Type = ArrayType\<rparr>
                | PMap _ \<Rightarrow> Inr \<lparr>Value = v, Type = ObjectType\<rparr>
                | PString _ \<Rightarrow> Inr \<lparr>Value = v, Type = StringType\<rparr>
                | PFloat64 _ \<Rightarrow> Inr \<lparr>Value = v, Type = NumberType\<rparr>
                | PBool _ \<Rightarrow> Inr \<lparr>Value = v, Type = BoolType\<rparr>
                | _ \<Rightarrow> Inl (Message (''unknown type '' @ typeName v @ '' in fromjson'')))))"

subsection \<open>join\<close>

text \<open>
  The loop of \<^verbatim>\<open>join\<close> fills \<^verbatim>\<open>v[i]\<close> with the string of the i-th element, whose type
  tag comes from \<^verbatim>\<open>getExprType\<close>.
\<close>

fun joinLoop :: "collaborators \<Rightarrow> payload list \<Rightarrow> string list" where
  "joinLoop d [] = []"
| "joinLoop d (a # ar) =
     CoerceString d \<lparr>Value = a, Type = getExprType d a\<rparr> # joinLoop d ar"

definition join :: "collaborators \<Rightarrow> EvaluationResult list \<Rightarrow> panic + EvaluationResult" where
  "join d args =
     (case args of
        [] \<Rightarrow> Inl IndexOutOfRange
      | a0 # rest \<Rightarrow>
          if Primitive a0 then Inr a0
          else
            let separator = (case rest of [] \<Rightarrow> '','' | a1 # _ \<Rightarrow> CoerceString d a1) in
            (case Value a0 of
               PSlice ar \<Rightarrow>
                 Inr \<lparr>Value = PString (Join (joinLoop d ar) separator), Type = StringType\<rparr>
             | _ \<Rightarrow> Inl InterfaceConversion))"

subsection \<open>endswith and startswith\<close>

definition endswith :: "collaborators \<Rightarrow> EvaluationResult list \<Rightarrow> panic + EvaluationResult" where
  "endswith d args =
     (case args of
        [] \<Rightarrow> Inl IndexOutOfRange
      | left # rest \<Rightarrow>
          if \<not> Primitive left then Inr \<lparr>Value = PBool False, Type = BoolType\<rparr>
          else
            (case rest of
               [] \<Rightarrow> Inl IndexOutOfRange
             | right # _ \<Rightarrow>
                 if \<not> Primitive left then Inr \<lparr>Value = PBool False, Type = BoolType\<rparr>
                 else
                   let ls = CoerceString d left; rs = CoerceString d right in
                   Inr \<lparr>Value = PBool (HasSuffix (ToLower d ls) (ToLower d rs)), Type = BoolType\<rparr>))"

definition startswith :: "collaborators \<Rightarrow> EvaluationResult list \<Rightarrow> panic + EvaluationResult" where
  "startswith d args =
     (case args of
        [] \<Rightarrow> Inl IndexOutOfRange
      | left # rest \<Rightarrow>
          if \<not> Primitive left then Inr \<lparr>Value = PBool False, Type = BoolType\<rparr>
          else
            (case rest of
               [] \<Rightarrow> Inl IndexOutOfRange
             | right # _ \<Rightarrow>
                 if \<not> Primitive right then Inr \<lparr>Value = PBool False, Type = BoolType\<rparr>
                 else
                   let ls = CoerceString d left; rs = CoerceString d right in
                   Inr \<lparr>Value = PBool (HasPrefix (ToLower d ls) (ToLower d rs)), Type = BoolType\<rparr>))"

subsection \<open>The table of functions\<close>

text \<open>
  The map \<^verbatim>\<open>functions\<close> of the source, from a function's name to its descriptor
  (\<open>functions\<close> is a keyword here, hence the longer name).
\<close>

definition functions_map :: "string \<Rightarrow> funcDef option" where
  "functions_map name =
     (if name = ''contains'' then Some \<lparr>argsCount = 2, call = contains\<rparr>
      else if name = ''startswith'' then Some \<lparr>argsCount = 2, call = startswith\<rparr>
      else if name = ''endswith'' then Some \<lparr>argsCount = 2, call = endswith\<rparr>
      else if name = ''join'' then Some \<lparr>argsCount = - 1, call = join\<rparr>
      else if name = ''fromjson'' then Some \<lparr>argsCount = 1, call = fromjson\<rparr>
      else None)"

text \<open>
  Modelled from the spec: the validation of the argument count, which the calling
  evaluator does before it invokes a function and which is not part of
  \<^verbatim>\<open>expr_funcs.go\<close>: an exact match if the descriptor's count is positive, an at-least
  check against its absolute value if it is negative. (No descriptor has the count 0,
  for which neither rule speaks; it asks for nothing here.)
\<close>

definition checkArgsCount :: "int \<Rightarrow> nat \<Rightarrow> bool" where
  "checkArgsCount c n =
     (if 0 < c then int n = c
      else if c < 0 then - c \<le> int n
      else True)"

text \<open>
  Modelled from the spec: the first two steps of the evaluator's dispatch, the lookup of
  the name (\<open>None\<close> for an unknown function) and the validation of the number \<open>n\<close> of
  supplied arguments against the descriptor found.
\<close>

definition acceptsArgsCount :: "string \<Rightarrow> nat \<Rightarrow> bool option" where
  "acceptsArgsCount name n =
     (case functions_map name of
        None \<Rightarrow> None
      | Some f \<Rightarrow> Some (checkArgsCount (argsCount f) n))"

section \<open>An implementation of the collaborators\<close>

text \<open>
  Modelled from the spec: \<^verbatim>\<open>CoerceString\<close>, declared outside \<^verbatim>\<open>expr_funcs.go\<close>. Null is
  the empty string, a boolean is \<^verbatim>\<open>true\<close> or \<^verbatim>\<open>false\<close>, a string is itself. The spec
  leaves the text of a number and of an array or object to the language's
  documentation: they are the parameters \<open>num\<close> and \<open>composite\<close>.
\<close>

definition specCoerceString ::
    "(float64 \<Rightarrow> string) \<Rightarrow> (payload \<Rightarrow> string) \<Rightarrow> EvaluationResult \<Rightarrow> string" where
  "specCoerceString num composite v =
     (case Value v of
        PNil \<Rightarrow> []
      | PBool b \<Rightarrow> (if b then ''true'' else ''false'')
      | PFloat64 f \<Rightarrow> num f
      | PString s \<Rightarrow> s
      | _ \<Rightarrow> composite (Value v))"

text \<open>
  Modelled from the spec: \<^verbatim>\<open>getExprType\<close>, declared outside \<^verbatim>\<open>expr_funcs.go\<close>, which
  classifies a decoded payload by its shape.
\<close>

fun specGetExprType :: "payload \<Rightarrow> ExprType" where
  "specGetExprType PNil = NullType"
| "specGetExprType (PBool _) = BoolType"
| "specGetExprType (PFloat64 _) = NumberType"
| "specGetExprType (PString _) = StringType"
| "specGetExprType (PSlice _) = ArrayType"
| "specGetExprType (PMap _) = ObjectType"

text \<open>The elements of a sequence as Values, each under the tag of its shape.\<close>

fun wrapAll :: "payload list \<Rightarrow> EvaluationResult list" where
  "wrapAll [] = []"
| "wrapAll (a # ar) = \<lparr>Value = a, Type = specGetExprType a\<rparr> # wrapAll ar"

text \<open>
  Modelled from the spec: \<^verbatim>\<open>CoerceSlice\<close>, declared outside \<^verbatim>\<open>expr_funcs.go\<close>: the
  element sequence if the type is Array, absent otherwise. A Value tagged Array whose
  payload is no sequence has no element sequence to give.
\<close>

definition specCoerceSlice :: "EvaluationResult \<Rightarrow> EvaluationResult list option" where
  "specCoerceSlice v =
     (if Type v = ArrayType
      then (case Value v of PSlice ar \<Rightarrow> Some (wrapAll ar) | _ \<Rightarrow> None)
      else None)"

text \<open>
  Modelled from the spec: \<^verbatim>\<open>Equals\<close>, declared outside \<^verbatim>\<open>expr_funcs.go\<close>. The spec asks
  only for an equality that is well defined between primitive Values; this one compares
  the payloads.
\<close>

definition specEquals :: "EvaluationResult \<Rightarrow> EvaluationResult \<Rightarrow> bool" where
  "specEquals a b = (Value a = Value b)"

text \<open>
  \<^verbatim>\<open>json.Unmarshal\<close> of the Go standard library on the documents that serve as examples
  below, with the decoder's own error text for \<^verbatim>\<open>not json\<close>. It is not a JSON decoder:
  a text outside this table is answered with an error as well.
\<close>

definition exampleUnmarshal :: "string \<Rightarrow> string + payload" where
  "exampleUnmarshal s =
     (if s = ''null'' then Inr PNil
      else if s = ''true'' then Inr (PBool True)
      else if s = ''1'' then Inr (PFloat64 0x3FF0000000000000)
      else if s = ''\"a\"'' then Inr (PString ''a'')
      else if s = ''[\"a\",\"b\"]'' then Inr (PSlice [PString ''a'', PString ''b''])
      else if s = ''{}'' then Inr (PMap [])
      else if s = ''not json'' then Inl ''invalid character 'o' in literal null (expecting 'u')''
      else Inl ''unexpected end of JSON input'')"

text \<open>
  The collaborators above put together; the lowercasing function \<open>lower\<close> stays a
  parameter, like \<open>num\<close> and \<open>composite\<close>.
\<close>

definition specCollaborators ::
    "(float64 \<Rightarrow> string) \<Rightarrow> (payload \<Rightarrow> string) \<Rightarrow> (string \<Rightarrow> string) \<Rightarrow> collaborators" where
  "specCollaborators num composite lower =
     \<lparr>CoerceString = specCoerceString num composite,
      CoerceSlice = specCoerceSlice,
      Equals = specEquals,
      getExprType = specGetExprType,
      Unmarshal = exampleUnmarshal,
      ToLower = lower\<rparr>"

text \<open>
  The parameters fixed for running the functions on concrete arguments: the number 1
  prints as \<^verbatim>\<open>1\<close> (no other number occurs in the examples), an array as \<^verbatim>\<open>Array\<close> and
  an object as \<^verbatim>\<open>Object\<close>, and text is lowered as ASCII text is (the examples have no
  other).
\<close>

definition exampleNumber :: "float64 \<Rightarrow> string" where
  "exampleNumber f = (if f = 0x3FF0000000000000 then ''1'' else ''NaN'')"

definition exampleComposite :: "payload \<Rightarrow> string" where
  "exampleComposite p = (case p of PMap _ \<Rightarrow> ''Object'' | _ \<Rightarrow> ''Array'')"

definition exampleCollaborators :: collaborators where
  "exampleCollaborators = specCollaborators exampleNumber exampleComposite asciiToLower"

section \<open>Auxiliary facts\<close>

lemma containsLoop_result:
  "containsLoop d right s =
     \<lparr>Value = PBool (\<exists>v \<in> set s. Equals d right v), Type = BoolType\<rparr>"
  by (induction s) auto

lemma containsLoop_first_match:
  "containsLoop d right (pre @ v # post) = \<lparr>Value = PBool True, Type = BoolType\<rparr>"
  if "Equals d right v"
  using that by (induction pre) auto

lemma joinLoop_map:
  "joinLoop d ar = map (\<lambda>a. CoerceString d \<lparr>Value = a, Type = getExprType d a\<rparr>) ar"
  by (induction ar) auto

lemma contains_primitive:
  "Primitive left \<Longrightarrow> Primitive right \<Longrightarrow>
   contains d [left, right] =
     Inr \<lparr>Value = PBool (Contains (CoerceString d left) (CoerceString d right)),
          Type = BoolType\<rparr>"
  by (simp add: contains_def)

lemma endswith_primitive_left:
  "Primitive left \<Longrightarrow>
   endswith d (left # right # rest) =
     Inr \<lparr>Value = PBool (HasSuffix (ToLower d (CoerceString d left))
                                   (ToLower d (CoerceString d right))),
          Type = BoolType\<rparr>"
  by (simp add: endswith_def)

lemma Join_concat: "Join (x # xs) sep = x @ concat (map (\<lambda>y. sep @ y) xs)"
  by (induction xs arbitrary: x) auto

lemma asciiToLower_HelloWorld: "asciiToLower ''HelloWorld'' = ''helloworld''"
  by code_simp

lemma asciiToLower_hello: "asciiToLower ''hello'' = ''hello''"
  by code_simp

lemma asciiToLower_WORLD: "asciiToLower ''WORLD'' = ''world''"
  by code_simp

section \<open>contains\<close>

text \<open>
  C1. With two primitive operands \<^verbatim>\<open>contains\<close> is meant to compare without regard to
  case (its comments say so, and \<^verbatim>\<open>startswith\<close> and \<^verbatim>\<open>endswith\<close> lower both strings),
  but it hands the coerced strings to \<^verbatim>\<open>strings.Contains\<close> as they are: for the strings
  \<^verbatim>\<open>HelloWorld\<close> and \<^verbatim>\<open>hello\<close> it answers false, although the lowercase of the first
  contains the lowercase of the second.
\<close>

theorem contains_is_case_sensitive:
  "contains (specCollaborators num composite lower)
     [\<lparr>Value = PString ''HelloWorld'', Type = StringType\<rparr>,
      \<lparr>Value = PString ''hello'', Type = StringType\<rparr>]
     = Inr \<lparr>Value = PBool False, Type = BoolType\<rparr>
   \<and> Contains (asciiToLower ''HelloWorld'') (asciiToLower ''hello'')"
proof
  show "contains (specCollaborators num composite lower)
     [\<lparr>Value = PString ''HelloWorld'', Type = StringType\<rparr>,
      \<lparr>Value = PString ''hello'', Type = StringType\<rparr>]
     = Inr \<lparr>Value = PBool False, Type = BoolType\<rparr>"
    by (simp add: contains_def specCollaborators_def specCoerceString_def Contains_def
        sublist_code prefix_code)
  show "Contains (asciiToLower ''HelloWorld'') (asciiToLower ''hello'')"
    by (simp add: asciiToLower_HelloWorld asciiToLower_hello Contains_def)
qed

text \<open>
  C4. When \<^verbatim>\<open>search\<close> has type Array, \<^verbatim>\<open>contains\<close> returns the Bool Value false for an
  item that is not primitive; for a primitive item it walks the elements that
  \<^verbatim>\<open>CoerceSlice\<close> gives, in order, and returns the Bool Value true at the first one that
  \<^verbatim>\<open>Equals\<close> accepts and the Bool Value false when none does. So the result is true
  exactly when the item is primitive and some element equals it.
\<close>

theorem contains_array:
  "Type search = ArrayType \<Longrightarrow>
   contains d [search, item] =
     Inr \<lparr>Value = PBool (Primitive item \<and>
                         (case CoerceSlice d search of
                            None \<Rightarrow> False
                          | Some s \<Rightarrow> \<exists>v \<in> set s. Equals d item v)),
          Type = BoolType\<rparr>"
  by (simp add: contains_def containsLoop_result split: option.split)

theorem contains_array_witness:
  "Type \<lparr>Value = PSlice [PString ''a'', PString ''b''], Type = ArrayType\<rparr> = ArrayType
   \<and> contains exampleCollaborators
       [\<lparr>Value = PSlice [PString ''a'', PString ''b''], Type = ArrayType\<rparr>,
        \<lparr>Value = PString ''b'', Type = StringType\<rparr>]
     = Inr \<lparr>Value = PBool True, Type = BoolType\<rparr>
   \<and> contains exampleCollaborators
       [\<lparr>Value = PSlice [PString ''a'', PString ''b''], Type = ArrayType\<rparr>,
        \<lparr>Value = PString ''c'', Type = StringType\<rparr>]
     = Inr \<lparr>Value = PBool False, Type = BoolType\<rparr>
   \<and> contains exampleCollaborators
       [\<lparr>Value = PSlice [PString ''a'', PString ''b''], Type = ArrayType\<rparr>,
        \<lparr>Value = PSlice [], Type = ArrayType\<rparr>]
     = Inr \<lparr>Value = PBool False, Type = BoolType\<rparr>"
  using
    contains_array [of "\<lparr>Value = PSlice [PString ''a'', PString ''b''], Type = ArrayType\<rparr>"
      exampleCollaborators "\<lparr>Value = PString ''b'', Type = StringType\<rparr>"]
    contains_array [of "\<lparr>Value = PSlice [PString ''a'', PString ''b''], Type = ArrayType\<rparr>"
      exampleCollaborators "\<lparr>Value = PString ''c'', Type = StringType\<rparr>"]
    contains_array [of "\<lparr>Value = PSlice [PString ''a'', PString ''b''], Type = ArrayType\<rparr>"
      exampleCollaborators "\<lparr>Value = PSlice [], Type = ArrayType\<rparr>"]
  by (simp add: exampleCollaborators_def specCollaborators_def specCoerceSlice_def
      specEquals_def)

text \<open>
  C10. When \<^verbatim>\<open>search\<close> has type Array and \<^verbatim>\<open>CoerceSlice\<close> gives no element sequence for
  it, \<^verbatim>\<open>contains\<close> does not fail: it returns the Bool Value false.
\<close>

theorem contains_array_without_slice:
  "Type search = ArrayType \<Longrightarrow> CoerceSlice d search = None \<Longrightarrow>
   contains d [search, item] = Inr \<lparr>Value = PBool False, Type = BoolType\<rparr>"
  by (simp add: contains_def)

theorem contains_array_without_slice_witness:
  "Type \<lparr>Value = PNil, Type = ArrayType\<rparr> = ArrayType
   \<and> CoerceSlice exampleCollaborators \<lparr>Value = PNil, Type = ArrayType\<rparr> = None
   \<and> contains exampleCollaborators
       [\<lparr>Value = PNil, Type = ArrayType\<rparr>, \<lparr>Value = PString ''a'', Type = StringType\<rparr>]
     = Inr \<lparr>Value = PBool False, Type = BoolType\<rparr>"
proof -
  have t: "Type \<lparr>Value = PNil, Type = ArrayType\<rparr> = ArrayType"
    by simp
  have n: "CoerceSlice exampleCollaborators \<lparr>Value = PNil, Type = ArrayType\<rparr> = None"
    by (simp add: exampleCollaborators_def specCollaborators_def specCoerceSlice_def)
  show ?thesis
    using t n contains_array_without_slice [OF t n] by simp
qed

section \<open>startswith and endswith\<close>

text \<open>
  C9. \<^verbatim>\<open>startswith(a, b)\<close> returns the Bool Value false when either operand is not
  primitive, and otherwise the Bool Value that tells whether the lowercase of
  \<^verbatim>\<open>CoerceString(a)\<close> starts with the lowercase of \<^verbatim>\<open>CoerceString(b)\<close>, the lowercase
  being what \<^verbatim>\<open>strings.ToLower\<close> returns, on any text.
\<close>

theorem startswith_result:
  "startswith d [a, b] =
     Inr \<lparr>Value = PBool (Primitive a \<and> Primitive b \<and>
                         HasPrefix (ToLower d (CoerceString d a))
                                   (ToLower d (CoerceString d b))),
          Type = BoolType\<rparr>"
  by (simp add: startswith_def)

theorem startswith_result_witness:
  "startswith exampleCollaborators
     [\<lparr>Value = PString ''HelloWorld'', Type = StringType\<rparr>,
      \<lparr>Value = PString ''hello'', Type = StringType\<rparr>]
     = Inr \<lparr>Value = PBool True, Type = BoolType\<rparr>
   \<and> startswith exampleCollaborators
       [\<lparr>Value = PString ''HelloWorld'', Type = StringType\<rparr>,
        \<lparr>Value = PString ''WORLD'', Type = StringType\<rparr>]
     = Inr \<lparr>Value = PBool False, Type = BoolType\<rparr>
   \<and> startswith exampleCollaborators
       [\<lparr>Value = PString ''HelloWorld'', Type = StringType\<rparr>,
        \<lparr>Value = PSlice [], Type = ArrayType\<rparr>]
     = Inr \<lparr>Value = PBool False, Type = BoolType\<rparr>"
  using
    startswith_result [of exampleCollaborators
      "\<lparr>Value = PString ''HelloWorld'', Type = StringType\<rparr>"
      "\<lparr>Value = PString ''hello'', Type = StringType\<rparr>"]
    startswith_result [of exampleCollaborators
      "\<lparr>Value = PString ''HelloWorld'', Type = StringType\<rparr>"
      "\<lparr>Value = PString ''WORLD'', Type = StringType\<rparr>"]
    startswith_result [of exampleCollaborators
      "\<lparr>Value = PString ''HelloWorld'', Type = StringType\<rparr>"
      "\<lparr>Value = PSlice [], Type = ArrayType\<rparr>"]
  by (simp add: exampleCollaborators_def specCollaborators_def specCoerceString_def
      asciiToLower_HelloWorld asciiToLower_hello asciiToLower_WORLD HasPrefix_def)

text \<open>
  C2. \<^verbatim>\<open>endswith\<close> tests \<^verbatim>\<open>left.Primitive()\<close> twice and \<^verbatim>\<open>right.Primitive()\<close> never, so a
  right operand that is not primitive is coerced and compared like any other. Whatever
  text \<open>composite\<close> gives the empty array and whatever \<open>lower\<close> makes of a text, the
  String Value with the array's text as the left
  operand and the empty array as the right one make \<^verbatim>\<open>endswith\<close> return the Bool Value
  true, where false is due.
\<close>

theorem endswith_right_operand_unchecked:
  "endswith (specCollaborators num composite lower)
     [\<lparr>Value = PString (composite (PSlice [])), Type = StringType\<rparr>,
      \<lparr>Value = PSlice [], Type = ArrayType\<rparr>]
     = Inr \<lparr>Value = PBool True, Type = BoolType\<rparr>
   \<and> \<not> Primitive \<lparr>Value = PSlice [], Type = ArrayType\<rparr>"
  by (simp add: endswith_def specCollaborators_def specCoerceString_def HasSuffix_def)

section \<open>The arity of join\<close>

text \<open>
  C3, as amended. The descriptor of \<^verbatim>\<open>join\<close> has the count -1, which the validation
  rule reads as "at least one argument": a call of \<^verbatim>\<open>join\<close> with \<open>n\<close> arguments is
  accepted if and only if \<open>1 \<le> n\<close>. No upper bound is checked.
\<close>

theorem join_arity_at_least_one:
  "acceptsArgsCount ''join'' n = Some (1 \<le> n)"
  by (auto simp add: acceptsArgsCount_def functions_map_def checkArgsCount_def)

text \<open>
  C3, as stated, asks for at most two arguments; a call with three is accepted.
\<close>

theorem join_accepts_three_arguments:
  "acceptsArgsCount ''join'' 3 = Some True \<and> \<not> (1 \<le> (3::nat) \<and> (3::nat) \<le> 2)"
  by (simp add: acceptsArgsCount_def functions_map_def checkArgsCount_def)

section \<open>join\<close>

text \<open>
  C6. When its first argument is primitive, \<^verbatim>\<open>join\<close> returns that argument itself, with
  the payload and the type tag it came with, whatever arguments follow.
\<close>

theorem join_primitive_identity:
  "Primitive v \<Longrightarrow> join d (v # rest) = Inr v"
  by (simp add: join_def)

theorem join_primitive_identity_witness:
  "Primitive \<lparr>Value = PBool True, Type = BoolType\<rparr>
   \<and> join exampleCollaborators
       [\<lparr>Value = PBool True, Type = BoolType\<rparr>, \<lparr>Value = PString ''-'', Type = StringType\<rparr>]
     = Inr \<lparr>Value = PBool True, Type = BoolType\<rparr>"
proof -
  have p: "Primitive \<lparr>Value = PBool True, Type = BoolType\<rparr>"
    by simp
  from p join_primitive_identity [OF p] show ?thesis
    by blast
qed

text \<open>
  C7. When its first argument is not primitive and holds a sequence, \<^verbatim>\<open>join\<close> returns
  the String Value made of the elements' strings in the order of the sequence, each
  element coerced under the type tag \<^verbatim>\<open>getExprType\<close> gives it, with the separator
  between neighbours: \<^verbatim>\<open>","\<close> when there is no second argument, the second argument's
  \<^verbatim>\<open>CoerceString\<close> otherwise.
\<close>

theorem join_array:
  "\<not> Primitive a0 \<Longrightarrow> Value a0 = PSlice ar \<Longrightarrow>
   join d (a0 # rest) =
     Inr \<lparr>Value = PString
            (Join (map (\<lambda>a. CoerceString d \<lparr>Value = a, Type = getExprType d a\<rparr>) ar)
                  (case rest of [] \<Rightarrow> '','' | a1 # _ \<Rightarrow> CoerceString d a1)),
          Type = StringType\<rparr>"
  by (simp add: join_def joinLoop_map)

theorem join_array_witness:
  "\<not> Primitive \<lparr>Value = PSlice [PString ''a'', PBool True, PNil, PString ''b''], Type = ArrayType\<rparr>
   \<and> join exampleCollaborators
       [\<lparr>Value = PSlice [PString ''a'', PBool True, PNil, PString ''b''], Type = ArrayType\<rparr>]
     = Inr \<lparr>Value = PString ''a,true,,b'', Type = StringType\<rparr>
   \<and> join exampleCollaborators
       [\<lparr>Value = PSlice [PString ''a'', PBool True, PNil, PString ''b''], Type = ArrayType\<rparr>,
        \<lparr>Value = PString '' - '', Type = StringType\<rparr>]
     = Inr \<lparr>Value = PString ''a - true -  - b'', Type = StringType\<rparr>"
proof -
  let ?a = "\<lparr>Value = PSlice [PString ''a'', PBool True, PNil, PString ''b''], Type = ArrayType\<rparr>"
  have p: "\<not> Primitive ?a"
    by simp
  have v: "Value ?a = PSlice [PString ''a'', PBool True, PNil, PString ''b'']"
    by simp
  from p join_array [OF p v, of exampleCollaborators "[]"]
    join_array [OF p v, of exampleCollaborators "[\<lparr>Value = PString '' - '', Type = StringType\<rparr>]"]
  show ?thesis
    by (simp add: exampleCollaborators_def specCollaborators_def specCoerceString_def)
qed

section \<open>fromjson\<close>

text \<open>
  C8. When the decoding of the coerced input succeeds and gives something other than
  nil, \<^verbatim>\<open>fromjson\<close> returns the decoded data as the payload under the type tag of its
  shape: Array for a sequence, Object for a mapping, String for a string, Number for a
  float64 and Bool for a boolean.
\<close>

theorem fromjson_success:
  "(\<forall>ar. Unmarshal d (CoerceString d input) = Inr (PSlice ar) \<longrightarrow>
      fromjson d (input # rest) = Inr \<lparr>Value = PSlice ar, Type = ArrayType\<rparr>)
   \<and> (\<forall>m. Unmarshal d (CoerceString d input) = Inr (PMap m) \<longrightarrow>
      fromjson d (input # rest) = Inr \<lparr>Value = PMap m, Type = ObjectType\<rparr>)
   \<and> (\<forall>s. Unmarshal d (CoerceString d input) = Inr (PString s) \<longrightarrow>
      fromjson d (input # rest) = Inr \<lparr>Value = PString s, Type = StringType\<rparr>)
   \<and> (\<forall>f. Unmarshal d (CoerceString d input) = Inr (PFloat64 f) \<longrightarrow>
      fromjson d (input # rest) = Inr \<lparr>Value = PFloat64 f, Type = NumberType\<rparr>)
   \<and> (\<forall>b. Unmarshal d (CoerceString d input) = Inr (PBool b) \<longrightarrow>
      fromjson d (input # rest) = Inr \<lparr>Value = PBool b, Type = BoolType\<rparr>)"
  by (simp add: fromjson_def)

theorem fromjson_success_witness:
  "fromjson exampleCollaborators [\<lparr>Value = PString ''[\"a\",\"b\"]'', Type = StringType\<rparr>]
     = Inr \<lparr>Value = PSlice [PString ''a'', PString ''b''], Type = ArrayType\<rparr>
   \<and> fromjson exampleCollaborators [\<lparr>Value = PString ''{}'', Type = StringType\<rparr>]
     = Inr \<lparr>Value = PMap [], Type = ObjectType\<rparr>
   \<and> fromjson exampleCollaborators [\<lparr>Value = PString ''\"a\"'', Type = StringType\<rparr>]
     = Inr \<lparr>Value = PString ''a'', Type = StringType\<rparr>
   \<and> fromjson exampleCollaborators [\<lparr>Value = PString ''1'', Type = StringType\<rparr>]
     = Inr \<lparr>Value = PFloat64 0x3FF0000000000000, Type = NumberType\<rparr>
   \<and> fromjson exampleCollaborators [\<lparr>Value = PString ''true'', Type = StringType\<rparr>]
     = Inr \<lparr>Value = PBool True, Type = BoolType\<rparr>"
proof -
  have u:
    "Unmarshal exampleCollaborators
       (CoerceString exampleCollaborators \<lparr>Value = PString s, Type = StringType\<rparr>)
     = exampleUnmarshal s" for s
    by (simp add: exampleCollaborators_def specCollaborators_def specCoerceString_def)
  have a: "exampleUnmarshal ''[\"a\",\"b\"]'' = Inr (PSlice [PString ''a'', PString ''b''])"
    and b: "exampleUnmarshal ''{}'' = Inr (PMap [])"
    and c: "exampleUnmarshal ''\"a\"'' = Inr (PString ''a'')"
    and e: "exampleUnmarshal ''1'' = Inr (PFloat64 0x3FF0000000000000)"
    and f: "exampleUnmarshal ''true'' = Inr (PBool True)"
    by (simp_all add: exampleUnmarshal_def)
  from
    fromjson_success [of exampleCollaborators
      "\<lparr>Value = PString ''[\"a\",\"b\"]'', Type = StringType\<rparr>" "[]"]
    fromjson_success [of exampleCollaborators
      "\<lparr>Value = PString ''{}'', Type = StringType\<rparr>" "[]"]
    fromjson_success [of exampleCollaborators
      "\<lparr>Value = PString ''\"a\"'', Type = StringType\<rparr>" "[]"]
    fromjson_success [of exampleCollaborators
      "\<lparr>Value = PString ''1'', Type = StringType\<rparr>" "[]"]
    fromjson_success [of exampleCollaborators
      "\<lparr>Value = PString ''true'', Type = StringType\<rparr>" "[]"]
  show ?thesis
    unfolding u a b c e f by auto
qed

text \<open>
  C5, as amended. A call of \<^verbatim>\<open>fromjson\<close> fails if and only if the coerced input does not
  decode or decodes to nil (a top-level JSON null), the one shape without a case. A
  failure to decode carries the offending text and the decoder's error in its message;
  the failure on nil carries the name of the decoded value's dynamic type, \<^verbatim>\<open><nil>\<close>,
  and not the text.
\<close>

theorem fromjson_failure:
  "((\<exists>p. fromjson d (input # rest) = Inl p) \<longleftrightarrow>
      (\<exists>err. Unmarshal d (CoerceString d input) = Inl err)
      \<or> Unmarshal d (CoerceString d input) = Inr PNil)
   \<and> (\<forall>err. Unmarshal d (CoerceString d input) = Inl err \<longrightarrow>
         fromjson d (input # rest) =
           Inl (Message (''unable to unmarshal `'' @ CoerceString d input
                         @ ''` fromjson: '' @ err)))
   \<and> (Unmarshal d (CoerceString d input) = Inr PNil \<longrightarrow>
         fromjson d (input # rest) = Inl (Message ''unknown type <nil> in fromjson''))"
proof (cases "Unmarshal d (CoerceString d input)")
  case (Inl err)
  then show ?thesis
    by (simp add: fromjson_def)
next
  case (Inr v)
  then show ?thesis
    by (cases v) (simp_all add: fromjson_def)
qed

theorem fromjson_failure_witness:
  "fromjson exampleCollaborators [\<lparr>Value = PString ''not json'', Type = StringType\<rparr>]
     = Inl (Message
         ''unable to unmarshal `not json` fromjson: invalid character 'o' in literal null (expecting 'u')'')
   \<and> fromjson exampleCollaborators [\<lparr>Value = PString ''null'', Type = StringType\<rparr>]
     = Inl (Message ''unknown type <nil> in fromjson'')"
  using
    fromjson_failure [of exampleCollaborators
      "\<lparr>Value = PString ''not json'', Type = StringType\<rparr>" "[]"]
    fromjson_failure [of exampleCollaborators
      "\<lparr>Value = PString ''null'', Type = StringType\<rparr>" "[]"]
  by (simp add: exampleCollaborators_def specCollaborators_def specCoerceString_def
      exampleUnmarshal_def)

text \<open>
  C5, as stated, wants every failure to carry the offending text: for the input
  \<^verbatim>\<open>null\<close> the message of the failure does not contain it.
\<close>

theorem fromjson_null_message_without_text:
  "fromjson exampleCollaborators [\<lparr>Value = PString ''null'', Type = StringType\<rparr>]
     = Inl (Message ''unknown type <nil> in fromjson'')
   \<and> \<not> Contains ''unknown type <nil> in fromjson'' ''null''"
proof
  show "fromjson exampleCollaborators [\<lparr>Value = PString ''null'', Type = StringType\<rparr>]
     = Inl (Message ''unknown type <nil> in fromjson'')"
    by (simp add: fromjson_def exampleCollaborators_def specCollaborators_def
        specCoerceString_def exampleUnmarshal_def)
  show "\<not> Contains ''unknown type <nil> in fromjson'' ''null''"
    by (simp add: Contains_def sublist_code prefix_code)
qed

end
